theory Spec2Isabelle
  imports Complex_Main
begin

section \<open>Rankine earth pressure coefficients (app.py)\<close>

text \<open>
  The calculator of app.py is the function \<open>rankine_earth_pressures\<close>. It takes the
  friction angle in degrees, converts it with \<open>math.radians\<close>, and builds a dictionary
  with the keys "Ka", "Kp" and "Ko".

  Numbers are modelled as exact reals: the specification states its contract over the
  reals, and rounding of Python's binary floating point is outside this model. What is
  kept of Python's arithmetic is its error behaviour: the operator \<open>/\<close> on floats raises
  \<open>ZeroDivisionError\<close> when the divisor is zero, where HOL's \<open>/\<close> would return 0.
\<close>

subsection \<open>Errors and arithmetic\<close>

datatype error = ZeroDivisionError

text \<open>\<open>math.radians(x)\<close>: degrees to radians.\<close>

definition radians :: "real \<Rightarrow> real" where
  "radians x = x * (pi / 180)"

text \<open>Python's \<open>a / b\<close> on floats.\<close>

definition truediv :: "real \<Rightarrow> real \<Rightarrow> error + real" where
  "truediv a b = (if b = 0 then Inl ZeroDivisionError else Inr (a / b))"

subsection \<open>The calculator\<close>

text \<open>The dictionary literal \<open>{"Ka": Ka, "Kp": Kp, "Ko": Ko}\<close> of line 25.\<close>

abbreviation coefficients :: "real \<Rightarrow> real \<Rightarrow> real \<Rightarrow> (string \<rightharpoonup> real)" where
  "coefficients ka kp ko \<equiv> [''Ka'' \<mapsto> ka, ''Kp'' \<mapsto> kp, ''Ko'' \<mapsto> ko]"

text \<open>
  Lines 14 to 25. The statements run in the order of the source: the division of Ka
  first, then the division of Kp, then Ko; an exception of either division leaves the
  function without a return value.
\<close>

definition rankine_earth_pressures :: "real \<Rightarrow> error + (string \<rightharpoonup> real)" where
  "rankine_earth_pressures phi_deg =
     (let phi_rad = radians phi_deg in
      case truediv (1 - sin phi_rad) (1 + sin phi_rad) of
        Inl e \<Rightarrow> Inl e
      | Inr ka \<Rightarrow>
          (case truediv (1 + sin phi_rad) (1 - sin phi_rad) of
             Inl e \<Rightarrow> Inl e
           | Inr kp \<Rightarrow>
               (let ko = 1 - sin phi_rad in
                Inr (coefficients ka kp ko))))"

section \<open>Auxiliary facts\<close>

lemma rankine_earth_pressures_regular:
  assumes "sin (radians phi_deg) \<noteq> 1" and "sin (radians phi_deg) \<noteq> - 1"
  shows "rankine_earth_pressures phi_deg =
           Inr (coefficients
                  ((1 - sin (radians phi_deg)) / (1 + sin (radians phi_deg)))
                  ((1 + sin (radians phi_deg)) / (1 - sin (radians phi_deg)))
                  (1 - sin (radians phi_deg)))"
proof -
  have "1 + sin (radians phi_deg) \<noteq> 0" using assms(2) by linarith
  moreover have "1 - sin (radians phi_deg) \<noteq> 0" using assms(1) by linarith
  ultimately show ?thesis
    by (simp add: rankine_earth_pressures_def truediv_def Let_def)
qed

lemma rankine_earth_pressures_singular:
  assumes "sin (radians phi_deg) = 1 \<or> sin (radians phi_deg) = - 1"
  shows "rankine_earth_pressures phi_deg = Inl ZeroDivisionError"
  using assms
  by (auto simp add: rankine_earth_pressures_def truediv_def Let_def)

subsection \<open>Degrees, radians and the sine\<close>

lemma radians_le_iff: "radians a \<le> radians b \<longleftrightarrow> a \<le> b"
  by (simp add: radians_def)

lemma radians_less_iff: "radians a < radians b \<longleftrightarrow> a < b"
  by (simp add: radians_def)

lemma sin_radians_strict_mono:
  assumes "- 90 \<le> a" and "a < b" and "b \<le> 90"
  shows "sin (radians a) < sin (radians b)"
proof -
  have lo: "radians (- 90) = - (pi / 2)" and hi: "radians 90 = pi / 2"
    by (simp_all add: radians_def)
  have "- (pi / 2) \<le> radians a" using assms(1) radians_le_iff [of "- 90" a] lo by simp
  moreover have "radians a < radians b" using assms(2) by (simp add: radians_less_iff)
  moreover have "radians b \<le> pi / 2" using assms(3) radians_le_iff [of b 90] hi by simp
  ultimately show ?thesis by (intro sin_monotone_2pi) linarith+
qed

lemma radians_90: "radians 90 = pi / 2"
  by (simp add: radians_def)

lemma radians_minus_90: "radians (- 90) = - (pi / 2)"
  by (simp add: radians_def)

lemma radians_0: "radians 0 = 0"
  by (simp add: radians_def)

lemma radians_30: "radians 30 = pi / 6"
  by (simp add: radians_def)

lemma radians_45: "radians 45 = pi / 4"
  by (simp add: radians_def)


lemma sin_radians_open:
  assumes "- 90 < phi_deg" and "phi_deg < 90"
  shows "- 1 < sin (radians phi_deg)" and "sin (radians phi_deg) < 1"
proof -
  have "sin (radians (- 90)) < sin (radians phi_deg)"
    using assms by (intro sin_radians_strict_mono) simp_all
  then show "- 1 < sin (radians phi_deg)" by (simp add: radians_minus_90)
  have "sin (radians phi_deg) < sin (radians 90)"
    using assms by (intro sin_radians_strict_mono) simp_all
  then show "sin (radians phi_deg) < 1" by (simp add: radians_90)
qed


lemma sqrt2_bounds: "1.414213 < sqrt 2" "sqrt 2 < 1.414214"
proof -
  have "sqrt ((1.414213::real)\<^sup>2) < sqrt 2"
    by (subst real_sqrt_less_iff) (simp add: power2_eq_square)
  then show "1.414213 < sqrt 2" by simp
  have "sqrt 2 < sqrt ((1.414214::real)\<^sup>2)"
    by (subst real_sqrt_less_iff) (simp add: power2_eq_square)
  then show "sqrt 2 < 1.414214" by simp
qed

subsection \<open>The result on the regular inputs, and the algebra of the quotients\<close>

lemma rankine_earth_pressures_open:
  assumes "- 90 < phi_deg" and "phi_deg < 90"
  shows "rankine_earth_pressures phi_deg =
           Inr (coefficients
                  ((1 - sin (radians phi_deg)) / (1 + sin (radians phi_deg)))
                  ((1 + sin (radians phi_deg)) / (1 - sin (radians phi_deg)))
                  (1 - sin (radians phi_deg)))"
  using sin_radians_open [OF assms] by (intro rankine_earth_pressures_regular) simp_all






lemma rankine_earth_pressures_30:
  "rankine_earth_pressures 30 = Inr (coefficients (1 / 3) 3 (1 / 2))"
  using rankine_earth_pressures_open [of 30] by (simp add: radians_30 sin_30)

lemma rankine_earth_pressures_45:
  "rankine_earth_pressures 45 =
     Inr (coefficients ((1 - sqrt 2 / 2) / (1 + sqrt 2 / 2))
                       ((1 + sqrt 2 / 2) / (1 - sqrt 2 / 2))
                       (1 - sqrt 2 / 2))"
  using rankine_earth_pressures_open [of 45] by (simp add: radians_45 sin_45)

lemma within_half_unit:
  fixes x :: real
  assumes "c - e \<le> l" and "l < x" and "x < u" and "u \<le> c + e"
  shows "\<bar>x - c\<bar> < e"
  using assms by linarith

lemma coefficients_45_digits:
  "\<bar>(1 - sqrt 2 / 2) / (1 + sqrt 2 / 2) - 0.1716\<bar> < 0.00005"
  "\<bar>(1 + sqrt 2 / 2) / (1 - sqrt 2 / 2) - 5.8284\<bar> < 0.00005"
  "\<bar>1 - sqrt 2 / 2 - 0.2929\<bar> < 0.00005"
proof -
  define s where "s = sqrt 2 / 2"
  have s: "0.7071065 < s" "s < 0.707107" using sqrt2_bounds by (simp_all add: s_def)
  have p: "0 < 1 + s" "0 < 1 - s" using s by simp_all
  have a1: "0.17155 < (1 - s) / (1 + s)" using s p by (simp add: pos_less_divide_eq)
  have a2: "(1 - s) / (1 + s) < 0.17165" using s p by (simp add: pos_divide_less_eq)
  have "\<bar>(1 - s) / (1 + s) - 0.1716\<bar> < 0.00005"
    by (rule within_half_unit [OF _ a1 a2]) simp_all
  then show "\<bar>(1 - sqrt 2 / 2) / (1 + sqrt 2 / 2) - 0.1716\<bar> < 0.00005"
    by (simp only: s_def)
  have p1: "5.82835 < (1 + s) / (1 - s)" using s p by (simp add: pos_less_divide_eq)
  have p2: "(1 + s) / (1 - s) < 5.82845" using s p by (simp add: pos_divide_less_eq)
  have "\<bar>(1 + s) / (1 - s) - 5.8284\<bar> < 0.00005"
    by (rule within_half_unit [OF _ p1 p2]) simp_all
  then show "\<bar>(1 + sqrt 2 / 2) / (1 - sqrt 2 / 2) - 5.8284\<bar> < 0.00005"
    by (simp only: s_def)
  have o1: "0.29289 < 1 - s" and o2: "1 - s < 0.2929" using s by simp_all
  have "\<bar>1 - s - 0.2929\<bar> < 0.00005"
    by (rule within_half_unit [OF _ o1 o2]) simp_all
  then show "\<bar>1 - sqrt 2 / 2 - 0.2929\<bar> < 0.00005"
    by (simp only: s_def)
qed

section \<open>The claims\<close>

text \<open>
  Claim C1. For every real input whose sine (after conversion to radians) is neither 1
  nor -1, the calculator returns a dictionary with exactly the three keys "Ka", "Kp" and
  "Ko", holding Ka = (1 - sin \<phi>) / (1 + sin \<phi>), Kp = (1 + sin \<phi>) / (1 - sin \<phi>) and
  Ko = 1 - sin \<phi>, where \<phi> is the input times pi / 180.
\<close>

theorem rankine_formulas:
  assumes "sin (radians phi_degrees) \<noteq> 1" and "sin (radians phi_degrees) \<noteq> - 1"
  shows "\<exists>ka kp ko.
           rankine_earth_pressures phi_degrees = Inr (coefficients ka kp ko)
         \<and> dom (coefficients ka kp ko) = {''Ka'', ''Kp'', ''Ko''}
         \<and> ka = (1 - sin (phi_degrees * pi / 180)) / (1 + sin (phi_degrees * pi / 180))
         \<and> kp = (1 + sin (phi_degrees * pi / 180)) / (1 - sin (phi_degrees * pi / 180))
         \<and> ko = 1 - sin (phi_degrees * pi / 180)"
proof -
  have r: "radians phi_degrees = phi_degrees * pi / 180" by (simp add: radians_def)
  have d: "dom (coefficients a b c) = {''Ka'', ''Kp'', ''Ko''}" for a b c by auto
  show ?thesis
    using rankine_earth_pressures_regular [OF assms] d unfolding r by blast
qed

theorem rankine_formulas_witness:
  "sin (radians 30) \<noteq> 1 \<and> sin (radians 30) \<noteq> - 1 \<and>
   (\<exists>ka kp ko.
           rankine_earth_pressures 30 = Inr (coefficients ka kp ko)
         \<and> dom (coefficients ka kp ko) = {''Ka'', ''Kp'', ''Ko''}
         \<and> ka = (1 - sin (30 * pi / 180)) / (1 + sin (30 * pi / 180))
         \<and> kp = (1 + sin (30 * pi / 180)) / (1 - sin (30 * pi / 180))
         \<and> ko = 1 - sin (30 * pi / 180))"
proof -
  have h1: "sin (radians 30) \<noteq> 1" by (simp add: radians_30 sin_30)
  have h2: "sin (radians 30) \<noteq> - 1" by (simp add: radians_30 sin_30)
  show ?thesis using h1 h2 rankine_formulas [OF h1 h2] by blast
qed

text \<open>
  Claim C2. When the sine of the converted input is 1 or -1 (as at 90 and -90 degrees),
  the calculator fails with the division-by-zero error and returns no dictionary: no
  infinity, no NaN and no partial result.
\<close>

theorem rankine_singular_fails:
  assumes "sin (radians phi_degrees) = 1 \<or> sin (radians phi_degrees) = - 1"
  shows "rankine_earth_pressures phi_degrees = Inl ZeroDivisionError
       \<and> (\<forall>d. rankine_earth_pressures phi_degrees \<noteq> Inr d)"
  using rankine_earth_pressures_singular [OF assms] by simp

theorem rankine_singular_fails_witness:
  "(sin (radians 90) = 1 \<or> sin (radians 90) = - 1)
   \<and> rankine_earth_pressures 90 = Inl ZeroDivisionError
   \<and> (\<forall>d. rankine_earth_pressures 90 \<noteq> Inr d)
   \<and> (sin (radians (- 90)) = 1 \<or> sin (radians (- 90)) = - 1)
   \<and> rankine_earth_pressures (- 90) = Inl ZeroDivisionError
   \<and> (\<forall>d. rankine_earth_pressures (- 90) \<noteq> Inr d)"
proof -
  have h1: "sin (radians 90) = 1 \<or> sin (radians 90) = - 1" by (simp add: radians_90)
  have h2: "sin (radians (- 90)) = 1 \<or> sin (radians (- 90)) = - 1"
    by (simp add: radians_minus_90)
  show ?thesis
    using h1 h2 rankine_singular_fails [OF h1] rankine_singular_fails [OF h2] by blast
qed







text \<open>
  Claim C6. At 0 degrees the calculator returns Ka = 1, Kp = 1 and Ko = 1.
\<close>

theorem rankine_at_zero:
  "rankine_earth_pressures 0 = Inr (coefficients 1 1 1)"
  using rankine_earth_pressures_open [of 0] by (simp add: radians_0)

text \<open>
  Claim C7. At 30 degrees the calculator returns Ka = 1/3, Kp = 3 and Ko = 1/2, which
  are 0.3333, 3.0000 and 0.5000 to four decimals; at 45 degrees it returns values that
  are 0.1716, 5.8284 and 0.2929 to four decimals. "To four decimals" is stated as a
  distance below half a unit of the fourth decimal place.
\<close>

theorem rankine_textbook_values:
  "(\<exists>ka kp ko. rankine_earth_pressures 30 = Inr (coefficients ka kp ko)
      \<and> ka = 1 / 3 \<and> kp = 3 \<and> ko = 1 / 2
      \<and> \<bar>ka - 0.3333\<bar> < 0.00005 \<and> \<bar>kp - 3.0000\<bar> < 0.00005 \<and> \<bar>ko - 0.5000\<bar> < 0.00005)
 \<and> (\<exists>ka kp ko. rankine_earth_pressures 45 = Inr (coefficients ka kp ko)
      \<and> \<bar>ka - 0.1716\<bar> < 0.00005 \<and> \<bar>kp - 5.8284\<bar> < 0.00005 \<and> \<bar>ko - 0.2929\<bar> < 0.00005)"
proof (intro conjI)
  have "\<bar>1 / 3 - 0.3333\<bar> < (0.00005::real)" "\<bar>3 - 3.0000\<bar> < (0.00005::real)"
       "\<bar>1 / 2 - 0.5000\<bar> < (0.00005::real)"
    by simp_all
  then show "\<exists>ka kp ko. rankine_earth_pressures 30 = Inr (coefficients ka kp ko)
      \<and> ka = 1 / 3 \<and> kp = 3 \<and> ko = 1 / 2
      \<and> \<bar>ka - 0.3333\<bar> < 0.00005 \<and> \<bar>kp - 3.0000\<bar> < 0.00005 \<and> \<bar>ko - 0.5000\<bar> < 0.00005"
    using rankine_earth_pressures_30 by blast
  show "\<exists>ka kp ko. rankine_earth_pressures 45 = Inr (coefficients ka kp ko)
      \<and> \<bar>ka - 0.1716\<bar> < 0.00005 \<and> \<bar>kp - 5.8284\<bar> < 0.00005 \<and> \<bar>ko - 0.2929\<bar> < 0.00005"
    using rankine_earth_pressures_45 coefficients_45_digits by blast
qed







end
